theory Spec2Isabelle
  imports Complex_Main
begin

section \<open>The three-dimensional vector of Math/Vector3.h\<close>

text \<open>
  \<^verbatim>\<open>Vector<3, T>\<close> is a value type over an element type \<^verbatim>\<open>T\<close>.  Its only data member is
  an anonymous union of \<^verbatim>\<open>std::array<T, 3> Data\<close> and an anonymous struct with the members
  \<^verbatim>\<open>X\<close>, \<^verbatim>\<open>Y\<close>, \<^verbatim>\<open>Z\<close>.  The constructors write the object through \<^verbatim>\<open>Data\<close>; \<^verbatim>\<open>Cross\<close>
  reads it through \<^verbatim>\<open>X\<close>, \<^verbatim>\<open>Y\<close>, \<^verbatim>\<open>Z\<close>.  The element type is a type variable whose sort
  lists the operations a function applies to it: numeric \<^verbatim>\<open>T\<close> value-initialises to
  \<open>0\<close> (sort \<open>zero\<close>), and the algebraic laws are stated in commutative rings, which
  covers the unbounded integers, the reals and the wrapping unsigned machine integers, and
  leaves the rounding of floating point out.
\<close>

subsection \<open>Failures\<close>

text \<open>
  A failed bounds check and a domain error end the operation; they are the left summand
  of a result.
\<close>

datatype error = OutOfRange | DomainError

subsection \<open>Storage\<close>

text \<open>\<^verbatim>\<open>std::array<T, 3>\<close>: three cells in sequence, a length fixed by the type.\<close>

datatype 'a array3 = Array3 'a 'a 'a

fun array3_at :: "'a array3 \<Rightarrow> nat \<Rightarrow> 'a option" where
  "array3_at (Array3 c0 c1 c2) i =
     (if i = 0 then Some c0 else if i = 1 then Some c1 else if i = 2 then Some c2 else None)"

fun array3_set :: "'a array3 \<Rightarrow> nat \<Rightarrow> 'a \<Rightarrow> 'a array3 option" where
  "array3_set (Array3 c0 c1 c2) i t =
     (if i = 0 then Some (Array3 t c1 c2)
      else if i = 1 then Some (Array3 c0 t c2)
      else if i = 2 then Some (Array3 c0 c1 t)
      else None)"

fun array3_list :: "'a array3 \<Rightarrow> 'a list" where
  "array3_list (Array3 c0 c1 c2) = [c0, c1, c2]"

fun array3_map :: "('a \<Rightarrow> 'b) \<Rightarrow> 'a array3 \<Rightarrow> 'b array3" where
  "array3_map f (Array3 c0 c1 c2) = Array3 (f c0) (f c1) (f c2)"

text \<open>
  The object is the storage of its union.  \<open>Data\<close> is the view of the storage as the array
  member; the members of the anonymous struct lie over the same cells in the order of
  their declaration, \<^verbatim>\<open>X\<close> on the first cell, \<^verbatim>\<open>Y\<close> on the second, \<^verbatim>\<open>Z\<close> on the third
  (three members of the one type \<^verbatim>\<open>T\<close>, laid out without padding, as the array's elements
  are).  Reading a struct member reads its cell, assigning to it replaces its cell.
\<close>

record 'a Vector3 =
  Data :: "'a array3"

definition X :: "'a Vector3 \<Rightarrow> 'a" where
  "X v = (case Data v of Array3 c0 c1 c2 \<Rightarrow> c0)"

definition Y :: "'a Vector3 \<Rightarrow> 'a" where
  "Y v = (case Data v of Array3 c0 c1 c2 \<Rightarrow> c1)"

definition Z :: "'a Vector3 \<Rightarrow> 'a" where
  "Z v = (case Data v of Array3 c0 c1 c2 \<Rightarrow> c2)"

definition X_assign :: "'a Vector3 \<Rightarrow> 'a \<Rightarrow> 'a Vector3" where
  "X_assign v t = (case Data v of Array3 c0 c1 c2 \<Rightarrow> v\<lparr>Data := Array3 t c1 c2\<rparr>)"

definition Y_assign :: "'a Vector3 \<Rightarrow> 'a \<Rightarrow> 'a Vector3" where
  "Y_assign v t = (case Data v of Array3 c0 c1 c2 \<Rightarrow> v\<lparr>Data := Array3 c0 t c2\<rparr>)"

definition Z_assign :: "'a Vector3 \<Rightarrow> 'a \<Rightarrow> 'a Vector3" where
  "Z_assign v t = (case Data v of Array3 c0 c1 c2 \<Rightarrow> v\<lparr>Data := Array3 c0 c1 t\<rparr>)"

text \<open>
  Modelled from the spec: \<^verbatim>\<open>Vector<2, T>\<close>, declared in Math/Vector2.h, which is not among
  the sources.  The spec gives it the named fields \<^verbatim>\<open>X\<close> and \<^verbatim>\<open>Y\<close>; the three-dimensional
  constructor reads nothing else of it.
\<close>

record 'a Vector2 =
  X2 :: 'a
  Y2 :: 'a

subsection \<open>The shared core (Math/Vector.h)\<close>

text \<open>
  Modelled from the spec: \<^verbatim>\<open>Size()\<close> of the base \<^verbatim>\<open>VectorBase\<close>, declared in Math/Vector.h,
  which is not among the sources.  The spec: it returns the dimension \<open>N\<close>, a constant.
\<close>

definition Size :: nat where
  "Size = 3"

text \<open>
  Modelled from the spec: access by sequence index, \<^verbatim>\<open>operator[](i)\<close> of Math/Vector.h,
  which fails with an out-of-range error when \<open>i \<ge> N\<close> and otherwise denotes element \<open>i\<close>
  of the ordered sequence, to read (\<open>operator_index\<close>) or to assign to
  (\<open>operator_index_assign\<close>).
\<close>

definition operator_index :: "'a Vector3 \<Rightarrow> nat \<Rightarrow> error + 'a" where
  "operator_index v i =
     (if i \<ge> Size then Inl OutOfRange
      else case array3_at (Data v) i of None \<Rightarrow> Inl OutOfRange | Some t \<Rightarrow> Inr t)"

definition operator_index_assign :: "'a Vector3 \<Rightarrow> nat \<Rightarrow> 'a \<Rightarrow> error + 'a Vector3" where
  "operator_index_assign v i t =
     (if i \<ge> Size then Inl OutOfRange
      else case array3_set (Data v) i t of None \<Rightarrow> Inl OutOfRange
           | Some d \<Rightarrow> Inr (v\<lparr>Data := d\<rparr>))"

text \<open>
  Modelled from the spec: \<^verbatim>\<open>operator==\<close> (element-wise equality), unary \<^verbatim>\<open>operator-\<close>
  (element-wise negation), \<^verbatim>\<open>operator/\<close> by a scalar (element-wise, with the division of
  \<^verbatim>\<open>T\<close>, here of a type with exact quotients) and \<^verbatim>\<open>Dot\<close> (the sum over \<open>i\<close> of
  \<open>a[i] * b[i]\<close>), all of Math/Vector.h, which is not among the sources.
\<close>

definition operator_eq :: "'a Vector3 \<Rightarrow> 'a Vector3 \<Rightarrow> bool" where
  "operator_eq a b = list_all2 (=) (array3_list (Data a)) (array3_list (Data b))"

definition operator_neg :: "'a::uminus Vector3 \<Rightarrow> 'a Vector3" where
  "operator_neg v = v\<lparr>Data := array3_map uminus (Data v)\<rparr>"

definition operator_div :: "'a::inverse Vector3 \<Rightarrow> 'a \<Rightarrow> 'a Vector3" where
  "operator_div v s = v\<lparr>Data := array3_map (\<lambda>t. t / s) (Data v)\<rparr>"

definition Dot :: "'a::{monoid_add,times} Vector3 \<Rightarrow> 'a Vector3 \<Rightarrow> 'a" where
  "Dot a b = sum_list (map2 (*) (array3_list (Data a)) (array3_list (Data b)))"

text \<open>
  Modelled from the spec: \<^verbatim>\<open>LengthSquared\<close>, \<^verbatim>\<open>Length\<close> and \<^verbatim>\<open>Normalized\<close> of Math/Vector.h,
  which is not among the sources.  The spec: \<open>LengthSquared\<close> is \<open>Dot(v, v)\<close>; \<open>Length\<close> is
  its square root, for \<^verbatim>\<open>T\<close> convertible to a real number; \<open>Normalized\<close> returns
  \<open>v / Length()\<close> and, when \<open>Length() == 0\<close>, signals a domain error instead of returning.
  The element type is the reals: the rounding of a floating-point \<^verbatim>\<open>T\<close> is not modelled.
\<close>

definition LengthSquared :: "'a::{monoid_add,times} Vector3 \<Rightarrow> 'a" where
  "LengthSquared v = Dot v v"

definition Length :: "real Vector3 \<Rightarrow> real" where
  "Length v = sqrt (LengthSquared v)"

definition Normalized :: "real Vector3 \<Rightarrow> error + real Vector3" where
  "Normalized v =
     (if Length v = 0 then Inl DomainError else Inr (operator_div v (Length v)))"

subsection \<open>Constructors\<close>

text \<open>
  \<^verbatim>\<open>Vector() : Data() { }\<close> value-initialises the array: every element is \<^verbatim>\<open>T()\<close>, which is
  zero for a numeric \<^verbatim>\<open>T\<close>.
\<close>

definition Vector_default :: "'a::zero Vector3" where
  "Vector_default = \<lparr>Data = Array3 0 0 0\<rparr>"

text \<open>
  The next three constructors delegate to \<^verbatim>\<open>Vector()\<close> and then assign a braced list of
  three values to \<^verbatim>\<open>Data\<close>.
\<close>

definition Vector_scalar :: "'a::zero \<Rightarrow> 'a Vector3" where
  "Vector_scalar scalar = Vector_default\<lparr>Data := Array3 scalar scalar scalar\<rparr>"

definition Vector_extend :: "'a::zero Vector2 \<Rightarrow> 'a \<Rightarrow> 'a Vector3" where
  "Vector_extend vector z = Vector_default\<lparr>Data := Array3 (X2 vector) (Y2 vector) z\<rparr>"

definition Vector_components :: "'a::zero \<Rightarrow> 'a \<Rightarrow> 'a \<Rightarrow> 'a Vector3" where
  "Vector_components x y z = Vector_default\<lparr>Data := Array3 x y z\<rparr>"

text \<open>
  \<^verbatim>\<open>Vector(const std::initializer_list<T> args)\<close> has no embedding.  Its body asserts
  \<^verbatim>\<open>args.size() <= Size()\<close> and then assigns \<^verbatim>\<open>Data = args\<close>.  The only assignments of
  \<^verbatim>\<open>std::array<T, 3>\<close> are its implicit copy and move assignment, and a
  \<^verbatim>\<open>std::initializer_list<T>\<close> does not convert to the array, so the statement is
  ill-formed and the constructor cannot be instantiated: it yields a vector for no list.
  Unlike the three constructors above, it does not delegate to \<^verbatim>\<open>Vector()\<close> either, so
  nothing in it gives an element the value zero.
\<close>

subsection \<open>Cross product\<close>

definition Cross :: "'a::{zero,times,minus} Vector3 \<Rightarrow> 'a Vector3 \<Rightarrow> 'a Vector3" where
  "Cross a b =
     (let rx = Y a * Z b - Z a * Y b;
          ry = Z a * X b - X a * Z b;
          rz = X a * Y b - Y a * X b
      in Vector_components rx ry rz)"

section \<open>Properties\<close>

subsection \<open>Reading a constructed vector\<close>

lemma Vector3_cases [case_names Vector3]:
  obtains c0 c1 c2 where "v = \<lparr>Data = Array3 c0 c1 c2\<rparr>"
proof -
  obtain d where v: "v = \<lparr>Data = d\<rparr>"
    by (cases v) simp
  obtain c0 c1 c2 where "d = Array3 c0 c1 c2"
    by (cases d) simp
  with v show thesis
    by (simp add: that)
qed

lemma Vector_components_eq: "Vector_components x y z = \<lparr>Data = Array3 x y z\<rparr>"
  by (simp add: Vector_components_def Vector_default_def)

lemma fields_of_storage [simp]:
  "X \<lparr>Data = Array3 c0 c1 c2\<rparr> = c0"
  "Y \<lparr>Data = Array3 c0 c1 c2\<rparr> = c1"
  "Z \<lparr>Data = Array3 c0 c1 c2\<rparr> = c2"
  by (simp_all add: X_def Y_def Z_def)

lemma Cross_storage:
  "Cross \<lparr>Data = Array3 a0 a1 a2\<rparr> \<lparr>Data = Array3 b0 b1 b2\<rparr> =
     \<lparr>Data = Array3 (a1 * b2 - a2 * b1) (a2 * b0 - a0 * b2) (a0 * b1 - a1 * b0)\<rparr>"
  by (simp add: Cross_def Vector_components_eq)

lemma operator_div_storage:
  "operator_div \<lparr>Data = Array3 x y z\<rparr> s = \<lparr>Data = Array3 (x / s) (y / s) (z / s)\<rparr>"
  by (simp add: operator_div_def)

lemma Length_storage:
  "Length \<lparr>Data = Array3 x y z\<rparr> = sqrt (x * x + y * y + z * z)"
  by (simp add: Length_def LengthSquared_def Dot_def)

subsection \<open>Index and field are two paths to one cell\<close>

lemma index_reads_field:
  "operator_index v 0 = Inr (X v)"
  "operator_index v 1 = Inr (Y v)"
  "operator_index v 2 = Inr (Z v)"
  by (cases v rule: Vector3_cases; simp add: operator_index_def Size_def)+

lemma index_assigns_field:
  "operator_index_assign v 0 t = Inr (X_assign v t)"
  "operator_index_assign v 1 t = Inr (Y_assign v t)"
  "operator_index_assign v 2 t = Inr (Z_assign v t)"
  by (cases v rule: Vector3_cases;
      simp add: operator_index_assign_def Size_def X_assign_def Y_assign_def Z_assign_def)+

lemma field_assign_read:
  "X (X_assign v t) = t" "Y (Y_assign v t) = t" "Z (Z_assign v t) = t"
  by (cases v rule: Vector3_cases; simp add: X_assign_def Y_assign_def Z_assign_def)+

subsection \<open>Length over the reals\<close>

lemma sum_squares_zero_iff:
  fixes x y z :: real
  shows "x * x + y * y + z * z = 0 \<longleftrightarrow> x = 0 \<and> y = 0 \<and> z = 0"
proof
  assume s: "x * x + y * y + z * z = 0"
  have "0 \<le> x * x" "0 \<le> y * y" "0 \<le> z * z" by simp_all
  with s have "x * x = 0" "y * y = 0" "z * z = 0" by linarith+
  then show "x = 0 \<and> y = 0 \<and> z = 0" by simp
qed simp

lemma Length_zero_iff: "Length v = 0 \<longleftrightarrow> v = Vector_components 0 0 0"
  by (cases v rule: Vector3_cases)
     (simp add: Length_storage Vector_components_eq sum_squares_zero_iff)

lemma Length_normalized:
  assumes "Length v \<noteq> 0"
  shows "Length (operator_div v (Length v)) = 1"
proof (cases v rule: Vector3_cases)
  case v: (Vector3 x y z)
  define s where "s = x * x + y * y + z * z"
  have s0: "0 \<le> s" by (simp add: s_def)
  have L: "Length v = sqrt s" by (simp add: v Length_storage s_def)
  with assms have "sqrt s \<noteq> 0" by simp
  with s0 have spos: "s \<noteq> 0" by auto
  have sq: "sqrt s * sqrt s = s" using s0 by simp
  have q: "t / sqrt s * (t / sqrt s) = t * t / s" for t
    by (simp only: times_divide_times_eq sq)
  have "x / sqrt s * (x / sqrt s) + y / sqrt s * (y / sqrt s) + z / sqrt s * (z / sqrt s)
          = (x * x + y * y + z * z) / s"
    by (simp only: q add_divide_distrib)
  also have "\<dots> = 1" using spos by (simp add: s_def)
  finally have one:
    "x / sqrt s * (x / sqrt s) + y / sqrt s * (y / sqrt s) + z / sqrt s * (z / sqrt s) = 1" .
  have "Length (operator_div v (Length v)) =
          sqrt (x / sqrt s * (x / sqrt s) + y / sqrt s * (y / sqrt s)
                + z / sqrt s * (z / sqrt s))"
    unfolding L unfolding v by (simp only: operator_div_storage Length_storage)
  then show ?thesis by (simp only: one real_sqrt_one)
qed

subsection \<open>Cross product: the component formula\<close>

text \<open>
  Claim C1.  For all three-dimensional vectors \<open>a\<close> and \<open>b\<close> over an element type with a
  product and a difference, \<open>Cross a b\<close> is the vector built from the components
  \<open>a.Y * b.Z - a.Z * b.Y\<close>, \<open>a.Z * b.X - a.X * b.Z\<close>, \<open>a.X * b.Y - a.Y * b.X\<close>, and its
  fields \<open>X\<close>, \<open>Y\<close>, \<open>Z\<close> read exactly these values.  Over exact arithmetic (any ring with
  a unit), \<open>Cross (1,0,0) (0,1,0)\<close> is \<open>(0,0,1)\<close>.
\<close>

theorem Cross_components:
  fixes a b :: "'a::{zero,times,minus} Vector3"
  shows "Cross a b =
           Vector_components (Y a * Z b - Z a * Y b) (Z a * X b - X a * Z b)
             (X a * Y b - Y a * X b)
         \<and> X (Cross a b) = Y a * Z b - Z a * Y b
         \<and> Y (Cross a b) = Z a * X b - X a * Z b
         \<and> Z (Cross a b) = X a * Y b - Y a * X b
         \<and> Cross (Vector_components 1 0 0) (Vector_components 0 1 0) =
             Vector_components 0 0 (1::'b::ring_1)"
  by (simp add: Cross_def Vector_components_eq)

subsection \<open>Normalization\<close>

text \<open>
  Claim C4.  For every vector \<open>v\<close> over the reals: when \<open>Length v\<close> is \<open>0\<close>, \<open>Normalized v\<close>
  signals the domain error and returns no value; when \<open>Length v\<close> is not \<open>0\<close>, it returns
  \<open>v / Length v\<close>, whose length is \<open>1\<close> (exactly, so within every tolerance).  The length
  is \<open>0\<close> for the zero vector only.
\<close>

theorem Normalized_signals_or_unit:
  "(Length v = 0 \<longrightarrow> Normalized v = Inl DomainError \<and> (\<forall>u. Normalized v \<noteq> Inr u))
   \<and> (Length v \<noteq> 0 \<longrightarrow>
         Normalized v = Inr (operator_div v (Length v))
         \<and> Length (operator_div v (Length v)) = 1)
   \<and> (Length v = 0) = (v = Vector_components 0 0 0)"
  by (simp add: Normalized_def Length_normalized Length_zero_iff)

theorem Normalized_signals_or_unit_witness:
  "Length (Vector_components 0 0 0) = 0
   \<and> Normalized (Vector_components 0 0 0) = Inl DomainError
   \<and> Length (Vector_components 3 4 0) = 5
   \<and> Normalized (Vector_components 3 4 0) = Inr (Vector_components (3 / 5) (4 / 5) 0)
   \<and> Length (Vector_components (3 / 5) (4 / 5) 0) = 1"
proof -
  have z: "Length (Vector_components 0 0 0) = 0"
    by (simp add: Vector_components_eq Length_storage)
  have "sqrt 25 = sqrt (5 * 5)" by simp
  then have five: "sqrt 25 = 5" by (simp only: real_sqrt_mult_self) simp
  have l: "Length (Vector_components 3 4 0) = 5"
    by (simp add: Vector_components_eq Length_storage five)
  have d: "operator_div (Vector_components 3 4 0) 5 = Vector_components (3 / 5) (4 / 5) (0::real)"
    by (simp add: Vector_components_eq operator_div_def)
  from Normalized_signals_or_unit [of "Vector_components 0 0 0"] z
  have n0: "Normalized (Vector_components 0 0 0) = Inl DomainError" by simp
  from Normalized_signals_or_unit [of "Vector_components 3 4 0"] l d
  have "Normalized (Vector_components 3 4 0) = Inr (Vector_components (3 / 5) (4 / 5) 0)
        \<and> Length (Vector_components (3 / 5) (4 / 5) 0) = 1" by simp
  with z l n0 show ?thesis by simp
qed

subsection \<open>Cross product: algebraic laws\<close>

text \<open>
  Claim C5.  For all three-dimensional vectors \<open>a\<close> and \<open>b\<close> over a commutative ring,
  the cross product is anti-commutative: each component of \<open>Cross a b\<close> is the negation of
  the same component of \<open>Cross b a\<close>; so \<open>Cross a b\<close> is the element-wise negation
  \<open>operator_neg (Cross b a)\<close>, and the element-wise \<open>operator==\<close> holds of the two.
\<close>

theorem Cross_anticommutative:
  fixes a b :: "'a::comm_ring Vector3"
  shows "X (Cross a b) = - X (Cross b a) \<and> Y (Cross a b) = - Y (Cross b a)
         \<and> Z (Cross a b) = - Z (Cross b a)
         \<and> Cross a b = operator_neg (Cross b a)
         \<and> operator_eq (Cross a b) (operator_neg (Cross b a))"
proof (cases a rule: Vector3_cases)
  case a: (Vector3 a0 a1 a2)
  show ?thesis
  proof (cases b rule: Vector3_cases)
    case b: (Vector3 b0 b1 b2)
    show ?thesis
      by (simp add: a b Cross_storage operator_neg_def operator_eq_def mult.commute)
  qed
qed

text \<open>
  Claim C6.  For all three-dimensional vectors \<open>a\<close> and \<open>b\<close> over a commutative ring (exact
  arithmetic), the cross product is orthogonal to both inputs: \<open>Dot (Cross a b) a\<close> and
  \<open>Dot (Cross a b) b\<close> are \<open>0\<close>, where \<open>Dot u v\<close> is the sum over \<open>i\<close> of \<open>u[i] * v[i]\<close>.
\<close>

theorem Cross_orthogonal:
  fixes a b :: "'a::comm_ring Vector3"
  shows "Dot (Cross a b) a = 0 \<and> Dot (Cross a b) b = 0"
proof (cases a rule: Vector3_cases)
  case a: (Vector3 a0 a1 a2)
  show ?thesis
  proof (cases b rule: Vector3_cases)
    case b: (Vector3 b0 b1 b2)
    show ?thesis
      by (simp add: a b Cross_storage Dot_def algebra_simps)
  qed
qed

subsection \<open>Named fields and indices\<close>

text \<open>
  Claim C7.  For every three-dimensional vector \<open>v\<close>, whatever operation produced it, the
  fields \<open>X\<close>, \<open>Y\<close>, \<open>Z\<close> and the indices \<open>0\<close>, \<open>1\<close>, \<open>2\<close> reach the same storage: element
  \<open>k\<close> of \<open>Data\<close> is the \<open>k\<close>-th field, reading index \<open>k\<close> returns the value of the
  \<open>k\<close>-th field, assigning through index \<open>k\<close> gives the vector that assigning to the
  \<open>k\<close>-th field gives, and a value assigned to a field is the value read at its index.
  For \<open>v\<close> constructed as \<open>(5, 6, 7)\<close>: \<open>v[0] = v.X = 5\<close>, \<open>v[1] = v.Y = 6\<close>,
  \<open>v[2] = v.Z = 7\<close>.
\<close>

theorem named_fields_alias_indices:
  "array3_list (Data v) = [X v, Y v, Z v]
   \<and> operator_index v 0 = Inr (X v) \<and> operator_index v 1 = Inr (Y v)
   \<and> operator_index v 2 = Inr (Z v)
   \<and> operator_index_assign v 0 t = Inr (X_assign v t)
   \<and> operator_index_assign v 1 t = Inr (Y_assign v t)
   \<and> operator_index_assign v 2 t = Inr (Z_assign v t)
   \<and> operator_index (X_assign v t) 0 = Inr t
   \<and> operator_index (Y_assign v t) 1 = Inr t
   \<and> operator_index (Z_assign v t) 2 = Inr t
   \<and> operator_index (Vector_components 5 6 (7::int)) 0 = Inr 5
   \<and> X (Vector_components 5 6 (7::int)) = 5
   \<and> operator_index (Vector_components 5 6 (7::int)) 1 = Inr 6
   \<and> Y (Vector_components 5 6 (7::int)) = 6
   \<and> operator_index (Vector_components 5 6 (7::int)) 2 = Inr 7
   \<and> Z (Vector_components 5 6 (7::int)) = 7"
proof -
  have "array3_list (Data v) = [X v, Y v, Z v]"
    by (cases v rule: Vector3_cases) simp
  then show ?thesis
    by (simp del: One_nat_def
          add: index_reads_field index_assigns_field field_assign_read Vector_components_eq)
qed

subsection \<open>The other constructors\<close>

text \<open>
  Claim C8.  For every two-dimensional vector \<open>v\<close> and scalar \<open>z\<close>, the extension
  constructor yields \<open>(v.X, v.Y, z)\<close>: the components of \<open>v\<close> first, the scalar as the
  last element.  Extending \<open>(1, 2)\<close> with \<open>3\<close> yields \<open>(1, 2, 3)\<close>.
\<close>

theorem extension_constructor:
  "Vector_extend v z = Vector_components (X2 v) (Y2 v) z
   \<and> array3_list (Data (Vector_extend v z)) = [X2 v, Y2 v, z]
   \<and> X (Vector_extend v z) = X2 v \<and> Y (Vector_extend v z) = Y2 v
   \<and> Z (Vector_extend v z) = z
   \<and> operator_index (Vector_extend v z) 2 = Inr z
   \<and> Vector_extend \<lparr>X2 = 1, Y2 = 2\<rparr> 3 = Vector_components 1 2 (3::int)"
  by (simp add: Vector_extend_def Vector_components_eq Vector_default_def
        operator_index_def Size_def)

text \<open>
  Claim C9.  For every scalar \<open>s\<close>, the scalar-broadcast constructor sets all three
  elements to \<open>s\<close>; the default constructor default-initialises all three elements, to
  zero for a numeric element type.
\<close>

theorem scalar_and_default_constructors:
  "array3_list (Data (Vector_scalar s)) = replicate Size s
   \<and> X (Vector_scalar s) = s \<and> Y (Vector_scalar s) = s \<and> Z (Vector_scalar s) = s
   \<and> array3_list (Data (Vector_default :: 'a::zero Vector3)) = replicate Size 0
   \<and> X (Vector_default :: 'a Vector3) = 0 \<and> Y (Vector_default :: 'a Vector3) = 0
   \<and> Z (Vector_default :: 'a Vector3) = 0"
  by (simp add: Vector_scalar_def Vector_default_def Size_def numeral_3_eq_3)

subsection \<open>Cross product of a vector with itself\<close>

text \<open>
  Claim C10.  For every three-dimensional vector \<open>a\<close> over a commutative ring (exact
  arithmetic), \<open>Cross a a\<close> is the zero vector \<open>(0, 0, 0)\<close>.
\<close>

theorem Cross_self_zero:
  fixes a :: "'a::comm_ring Vector3"
  shows "Cross a a = Vector_components 0 0 0 \<and> Cross a a = Vector_default
         \<and> X (Cross a a) = 0 \<and> Y (Cross a a) = 0 \<and> Z (Cross a a) = 0"
proof (cases a rule: Vector3_cases)
  case a: (Vector3 a0 a1 a2)
  show ?thesis
    by (simp add: a Cross_storage Vector_components_eq Vector_default_def mult.commute)
qed

end
